theory Spec2Isabelle
  imports Complex_Main
begin

unbundle bit_operations_syntax

section \<open>Python values\<close>

text \<open>
  Exceptions are values. Each constructor is a Python exception class; its argument is the
  message, or, where the source formats a value into the message, that value.
\<close>

datatype error =
    RuntimeError string
  | OSError string
  | ImportError string
  | ValueError string
  | FileNotFoundError string

text \<open>
  \<open>str.lower\<close>. A Python string is modelled as a \<open>string\<close>, each \<open>char\<close> standing for
  the code point of the same number; on these code points only the letters \<open>A\<close> to \<open>Z\<close> have
  an ASCII lower-case form, and every key of the two tables below is ASCII.
\<close>

definition lower_char :: "char \<Rightarrow> char" where
  "lower_char c =
     (case map_of (zip ''ABCDEFGHIJKLMNOPQRSTUVWXYZ'' ''abcdefghijklmnopqrstuvwxyz'') c of
        None \<Rightarrow> c
      | Some l \<Rightarrow> l)"

definition lower :: "string \<Rightarrow> string" where
  "lower s = map lower_char s"

text \<open>\<open>int(f)\<close> on a float: truncation towards zero. A finite float is read as the real it denotes.\<close>

definition py_int :: "real \<Rightarrow> int" where
  "py_int r = (if r < 0 then \<lceil>r\<rceil> else \<lfloor>r\<rfloor>)"

text \<open>\<open>range(n)\<close>: empty when \<open>n \<le> 0\<close>.\<close>

definition range_upto :: "int \<Rightarrow> int list" where
  "range_upto n = map int [0 ..< nat n]"

section \<open>Core data types (\<open>core/types.py\<close>)\<close>

datatype point = Point (point_x: int) (point_y: int)

datatype size = Size (size_width: int) (size_height: int)

datatype region = Region (region_left: int) (region_top: int) (region_width: int) (region_height: int)

datatype mouse_button = LEFT | RIGHT | MIDDLE

datatype locate_mode = IMAGE | OBJECT

section \<open>The static tables of the macOS backend\<close>

definition KEYCODE_MAP :: "string \<rightharpoonup> nat" where
  "KEYCODE_MAP = map_of [
     (''a'', 0x00), (''s'', 0x01), (''d'', 0x02), (''f'', 0x03), (''h'', 0x04), (''g'', 0x05),
     (''z'', 0x06), (''x'', 0x07), (''c'', 0x08), (''v'', 0x09), (''b'', 0x0B), (''q'', 0x0C),
     (''w'', 0x0D), (''e'', 0x0E), (''r'', 0x0F), (''y'', 0x10), (''t'', 0x11), (''u'', 0x20),
     (''i'', 0x22), (''p'', 0x23), (''l'', 0x25), (''j'', 0x26), (''k'', 0x28), (''n'', 0x2D),
     (''m'', 0x2E), (''o'', 0x1F),
     (''1'', 0x12), (''2'', 0x13), (''3'', 0x14), (''4'', 0x15), (''5'', 0x17), (''6'', 0x16),
     (''7'', 0x1A), (''8'', 0x1C), (''9'', 0x19), (''0'', 0x1D),
     (''return'', 0x24), (''enter'', 0x24), (''tab'', 0x30), (''space'', 0x31),
     (''delete'', 0x33), (''backspace'', 0x33), (''escape'', 0x35), (''esc'', 0x35),
     (''command'', 0x37), (''cmd'', 0x37), (''shift'', 0x38), (''capslock'', 0x39),
     (''option'', 0x3A), (''alt'', 0x3A), (''control'', 0x3B), (''ctrl'', 0x3B),
     (''rightshift'', 0x3C), (''rightoption'', 0x3D), (''rightcontrol'', 0x3E),
     (''fn'', 0x3F),
     (''f1'', 0x7A), (''f2'', 0x78), (''f3'', 0x63), (''f4'', 0x76), (''f5'', 0x60),
     (''f6'', 0x61), (''f7'', 0x62), (''f8'', 0x64), (''f9'', 0x65), (''f10'', 0x6D),
     (''f11'', 0x67), (''f12'', 0x6F),
     (''left'', 0x7B), (''right'', 0x7C), (''down'', 0x7D), (''up'', 0x7E),
     (''-'', 0x1B), (''='', 0x18), (''['', 0x21), ('']'', 0x1E), ([CHR 0x5C], 0x2A),
     ('';'', 0x29), ([CHR 0x27], 0x27), ('','', 0x2B), (''.'', 0x2F), (''/'', 0x2C),
     ([CHR 0x60], 0x32),
     (''home'', 0x73), (''end'', 0x77), (''pageup'', 0x74), (''pagedown'', 0x79),
     (''forwarddelete'', 0x75), (''help'', 0x72),
     (''volumeup'', 0x48), (''volumedown'', 0x49), (''mute'', 0x4A)]"

definition MODIFIER_FLAGS :: "string \<rightharpoonup> int" where
  "MODIFIER_FLAGS = map_of [
     (''command'', push_bit 20 1),
     (''cmd'', push_bit 20 1),
     (''shift'', push_bit 17 1),
     (''option'', push_bit 19 1),
     (''alt'', push_bit 19 1),
     (''control'', push_bit 18 1),
     (''ctrl'', push_bit 18 1),
     (''fn'', push_bit 23 1)]"

text \<open>\<open>(down_event_type, up_event_type, cg_mouse_button)\<close>; every button has an entry.\<close>

fun BUTTON_MAP :: "mouse_button \<Rightarrow> nat \<times> nat \<times> nat" where
  "BUTTON_MAP LEFT = (1, 2, 0)"
| "BUTTON_MAP RIGHT = (3, 4, 1)"
| "BUTTON_MAP MIDDLE = (25, 26, 2)"

section \<open>Quartz CoreGraphics, as the backend uses it\<close>

text \<open>The module object that \<open>from Quartz import CoreGraphics\<close> binds.\<close>

datatype CoreGraphics = CoreGraphics

text \<open>
  An event object with the attributes the backend sets: a mouse event has a type, a position,
  a button and integer-valued fields; a keyboard event has a key code, a direction, flags and
  an optional Unicode string.
\<close>

datatype cg_event =
    MouseEvent (me_type: nat) (me_position: "int \<times> int") (me_button: nat)
      (me_fields: "(nat \<times> int) list")
  | ScrollWheelEvent (sw_units: nat) (sw_wheel_count: nat) (sw_wheel1: int)
  | KeyboardEvent (ke_keycode: nat) (ke_keydown: bool) (ke_flags: int)
      (ke_unicode: "string option")

text \<open>A pixel array, standing for a PIL image, a numpy array and a captured screen alike.\<close>

datatype image = Image (img_height: nat) (img_width: nat) (img_pixels: "nat list")

text \<open>The module object that \<open>import cv2\<close> binds: the four functions the backend calls.\<close>

record cv2_module =
  imread :: "string \<Rightarrow> image option"
  cvtColor :: "image \<Rightarrow> image"
  matchTemplate :: "image \<Rightarrow> image \<Rightarrow> real list list"
  minMaxLoc :: "real list list \<Rightarrow> real \<times> real \<times> (int \<times> int) \<times> (int \<times> int)"

text \<open>
  What the process and the machine answer during one call: the platform name, the two
  imports, the display bounds, the cursor location, the flags of a newly created keyboard
  event, the captured screen (already converted to RGB; absent when
  \<open>CGWindowListCreateImage\<close> returns \<open>None\<close>), and two roundings of an exact result: to
  the float that the machine's arithmetic delivers (\<open>float_round\<close>), and to the single
  precision in which numpy compares a number with the scores of a match
  (\<open>float32_round\<close>). Both are left open here; binary64 rounding is defined further down.
\<close>

record os_env =
  sys_platform :: string
  float_round :: "real \<Rightarrow> real"
  float32_round :: "real \<Rightarrow> real"
  quartz_import :: "CoreGraphics option"
  cv2_import :: "cv2_module option"
  main_display_bounds :: "real \<times> real"
  event_location :: "real \<times> real"
  new_event_flags :: int
  window_list_image :: "region option \<Rightarrow> image option"

text \<open>What a call does to the outside: it posts an event to a tap, or it suspends.\<close>

datatype effect = CGEventPost nat cg_event | asyncio_sleep real

definition kCGEventMouseMoved :: nat where
  "kCGEventMouseMoved = 5"

definition kCGHIDEventTap :: nat where
  "kCGHIDEventTap = 0"

definition CGEventCreateMouseEvent :: "nat \<Rightarrow> int \<times> int \<Rightarrow> nat \<Rightarrow> cg_event" where
  "CGEventCreateMouseEvent ty pos btn = MouseEvent ty pos btn []"

definition CGEventCreateKeyboardEvent :: "os_env \<Rightarrow> nat \<Rightarrow> bool \<Rightarrow> cg_event" where
  "CGEventCreateKeyboardEvent os code keydown = KeyboardEvent code keydown (new_event_flags os) None"

definition CGEventCreateScrollWheelEvent :: "nat \<Rightarrow> nat \<Rightarrow> int \<Rightarrow> cg_event" where
  "CGEventCreateScrollWheelEvent units wheel_count wheel1 = ScrollWheelEvent units wheel_count wheel1"

fun CGEventSetIntegerValueField :: "cg_event \<Rightarrow> nat \<Rightarrow> int \<Rightarrow> cg_event" where
  "CGEventSetIntegerValueField (MouseEvent ty pos btn fs) field v =
     MouseEvent ty pos btn ((field, v) # filter (\<lambda>(f, _). f \<noteq> field) fs)"
| "CGEventSetIntegerValueField ev field v = ev"

fun CGEventGetFlags :: "cg_event \<Rightarrow> int" where
  "CGEventGetFlags (KeyboardEvent code keydown flags u) = flags"
| "CGEventGetFlags ev = 0"

fun CGEventSetFlags :: "cg_event \<Rightarrow> int \<Rightarrow> cg_event" where
  "CGEventSetFlags (KeyboardEvent code keydown flags u) flags' = KeyboardEvent code keydown flags' u"
| "CGEventSetFlags ev flags' = ev"

fun CGEventKeyboardSetUnicodeString :: "cg_event \<Rightarrow> nat \<Rightarrow> string \<Rightarrow> cg_event" where
  "CGEventKeyboardSetUnicodeString (KeyboardEvent code keydown flags u) n s =
     KeyboardEvent code keydown flags (Some (take n s))"
| "CGEventKeyboardSetUnicodeString ev n s = ev"

section \<open>The macOS backend (\<open>backends/macos_backend.py\<close>)\<close>

record macos_backend =
  mb_cg :: "CoreGraphics option"
  mb_initialized :: bool

text \<open>
  An awaited backend method yields its result or the exception it raised, and the effects
  it had up to that point. Only \<open>initialize\<close> and \<open>cleanup\<close> assign to the backend's fields.
\<close>

type_synonym 'a run = "(error + 'a) \<times> effect list"

definition MacOSBackend :: macos_backend where
  "MacOSBackend = \<lparr>mb_cg = None, mb_initialized = False\<rparr>"

definition initialize :: "os_env \<Rightarrow> macos_backend \<Rightarrow> (error + unit) \<times> macos_backend" where
  "initialize os b =
     (case quartz_import os of
        None \<Rightarrow>
          (Inl (ImportError ''PyObjC is required on macOS. Install with: pip install pyobjc-framework-Quartz''), b)
      | Some m \<Rightarrow> (Inr (), b\<lparr>mb_cg := Some m, mb_initialized := True\<rparr>))"

definition cleanup :: "macos_backend \<Rightarrow> (error + unit) \<times> macos_backend" where
  "cleanup b = (Inr (), b\<lparr>mb_initialized := False, mb_cg := None\<rparr>)"

definition ensure_ready :: "macos_backend \<Rightarrow> error + CoreGraphics" where
  "ensure_ready b =
     (case mb_cg b of
        None \<Rightarrow> Inl (RuntimeError ''MacOSBackend not initialized'')
      | Some m \<Rightarrow>
          if \<not> mb_initialized b then Inl (RuntimeError ''MacOSBackend not initialized'')
          else Inr m)"

subsection \<open>Keyboard\<close>

definition resolve_keycode :: "string \<Rightarrow> error + nat" where
  "resolve_keycode key =
     (case KEYCODE_MAP (lower key) of
        None \<Rightarrow> Inl (ValueError key)
      | Some code \<Rightarrow> Inr code)"

text \<open>\<open>if flag:\<close> holds for a flag that is present and not zero.\<close>

definition key_down :: "os_env \<Rightarrow> macos_backend \<Rightarrow> string \<Rightarrow> unit run" where
  "key_down os b key =
     (case ensure_ready b of
        Inl e \<Rightarrow> (Inl e, [])
      | Inr cg \<Rightarrow>
          (case resolve_keycode key of
             Inl e \<Rightarrow> (Inl e, [])
           | Inr code \<Rightarrow>
               (let event = CGEventCreateKeyboardEvent os code True;
                    event' = (case MODIFIER_FLAGS (lower key) of
                                None \<Rightarrow> event
                              | Some flag \<Rightarrow>
                                  if flag \<noteq> 0
                                  then CGEventSetFlags event (CGEventGetFlags event OR flag)
                                  else event)
                in (Inr (), [CGEventPost kCGHIDEventTap event']))))"

definition key_up :: "os_env \<Rightarrow> macos_backend \<Rightarrow> string \<Rightarrow> unit run" where
  "key_up os b key =
     (case ensure_ready b of
        Inl e \<Rightarrow> (Inl e, [])
      | Inr cg \<Rightarrow>
          (case resolve_keycode key of
             Inl e \<Rightarrow> (Inl e, [])
           | Inr code \<Rightarrow>
               (Inr (), [CGEventPost kCGHIDEventTap (CGEventCreateKeyboardEvent os code False)])))"

definition press_key :: "os_env \<Rightarrow> macos_backend \<Rightarrow> string \<Rightarrow> unit run" where
  "press_key os b key =
     (case key_down os b key of
        (Inl e, effs) \<Rightarrow> (Inl e, effs)
      | (Inr _, effs) \<Rightarrow>
          (case key_up os b key of (r, effs') \<Rightarrow> (r, effs @ effs')))"

text \<open>The loop of \<open>type_text\<close> over the characters; its body cannot raise.\<close>

fun type_text_loop :: "os_env \<Rightarrow> real \<Rightarrow> string \<Rightarrow> effect list" where
  "type_text_loop os interval [] = []"
| "type_text_loop os interval (ch # text) =
     (let down = CGEventKeyboardSetUnicodeString (CGEventCreateKeyboardEvent os 0 True) (length [ch]) [ch];
          up = CGEventKeyboardSetUnicodeString (CGEventCreateKeyboardEvent os 0 False) (length [ch]) [ch]
      in [CGEventPost kCGHIDEventTap down, CGEventPost kCGHIDEventTap up]
         @ (if interval > 0 then [asyncio_sleep interval] else [])
         @ type_text_loop os interval text)"

definition type_text :: "os_env \<Rightarrow> macos_backend \<Rightarrow> string \<Rightarrow> real \<Rightarrow> unit run" where
  "type_text os b text interval =
     (case ensure_ready b of
        Inl e \<Rightarrow> (Inl e, [])
      | Inr cg \<Rightarrow> (Inr (), type_text_loop os interval text))"

text \<open>
  The first loop of \<open>hotkey\<close>: it resolves each key, accumulates the flags and appends the
  down event to \<open>events_down\<close>, posting nothing.
\<close>

fun hotkey_build :: "os_env \<Rightarrow> string list \<Rightarrow> int \<Rightarrow> cg_event list \<Rightarrow> error + int \<times> cg_event list" where
  "hotkey_build os [] flags events_down = Inr (flags, events_down)"
| "hotkey_build os (key # keys) flags events_down =
     (case resolve_keycode key of
        Inl e \<Rightarrow> Inl e
      | Inr code \<Rightarrow>
          (let flags' = (case MODIFIER_FLAGS (lower key) of
                           None \<Rightarrow> flags
                         | Some mod_flag \<Rightarrow> if mod_flag \<noteq> 0 then flags OR mod_flag else flags);
               event = CGEventSetFlags (CGEventCreateKeyboardEvent os code True) flags'
           in hotkey_build os keys flags' (events_down @ [event])))"

text \<open>The last loop of \<open>hotkey\<close>, over the reversed keys.\<close>

fun hotkey_release :: "os_env \<Rightarrow> string list \<Rightarrow> int \<Rightarrow> unit run" where
  "hotkey_release os [] flags = (Inr (), [])"
| "hotkey_release os (key # keys) flags =
     (case resolve_keycode key of
        Inl e \<Rightarrow> (Inl e, [])
      | Inr code \<Rightarrow>
          (let flags' = (case MODIFIER_FLAGS (lower key) of
                           None \<Rightarrow> flags
                         | Some mod_flag \<Rightarrow> if mod_flag \<noteq> 0 then flags AND NOT mod_flag else flags);
               event = CGEventSetFlags (CGEventCreateKeyboardEvent os code False) flags'
           in (case hotkey_release os keys flags' of
                 (r, effs) \<Rightarrow> (r, CGEventPost kCGHIDEventTap event # effs))))"

definition hotkey :: "os_env \<Rightarrow> macos_backend \<Rightarrow> string list \<Rightarrow> unit run" where
  "hotkey os b keys =
     (case ensure_ready b of
        Inl e \<Rightarrow> (Inl e, [])
      | Inr cg \<Rightarrow>
          (case hotkey_build os keys 0 [] of
             Inl e \<Rightarrow> (Inl e, [])
           | Inr (flags, events_down) \<Rightarrow>
               (case hotkey_release os (rev keys) flags of
                  (r, effs) \<Rightarrow> (r, map (CGEventPost kCGHIDEventTap) events_down @ effs))))"

subsection \<open>Screen\<close>

definition get_screen_size :: "os_env \<Rightarrow> macos_backend \<Rightarrow> size run" where
  "get_screen_size os b =
     (case ensure_ready b of
        Inl e \<Rightarrow> (Inl e, [])
      | Inr cg \<Rightarrow>
          (case main_display_bounds os of
             (w, h) \<Rightarrow> (Inr (Size (py_int w) (py_int h)), [])))"

definition take_screenshot :: "os_env \<Rightarrow> macos_backend \<Rightarrow> region option \<Rightarrow> image run" where
  "take_screenshot os b region =
     (case ensure_ready b of
        Inl e \<Rightarrow> (Inl e, [])
      | Inr cg \<Rightarrow>
          (case window_list_image os region of
             None \<Rightarrow>
               (Inl (RuntimeError ''Failed to capture screenshot (CGWindowListCreateImage returned None)''), [])
           | Some img \<Rightarrow> (Inr img, [])))"

subsection \<open>Mouse\<close>

definition get_mouse_position :: "os_env \<Rightarrow> macos_backend \<Rightarrow> point run" where
  "get_mouse_position os b =
     (case ensure_ready b of
        Inl e \<Rightarrow> (Inl e, [])
      | Inr cg \<Rightarrow>
          (case event_location os of
             (lx, ly) \<Rightarrow> (Inr (Point (py_int lx) (py_int ly)), [])))"

text \<open>
  The loop of \<open>move_mouse\<close> over \<open>range(1, steps + 1)\<close>. Every float operation of the source
  is the exact operation followed by \<open>float_round\<close>, and an integer operand is rounded when
  it is converted.
\<close>

fun move_mouse_loop :: "os_env \<Rightarrow> point \<Rightarrow> int \<Rightarrow> int \<Rightarrow> real \<Rightarrow> int \<Rightarrow> int list \<Rightarrow> effect list" where
  "move_mouse_loop os start x y duration steps [] = []"
| "move_mouse_loop os start x y duration steps (i # rest) =
     (let fl = float_round os;
          t = fl (real_of_int i / real_of_int steps);
          cx = py_int (fl (fl (real_of_int (point_x start)) + fl (fl (real_of_int (x - point_x start)) * t)));
          cy = py_int (fl (fl (real_of_int (point_y start)) + fl (fl (real_of_int (y - point_y start)) * t)));
          event = CGEventCreateMouseEvent kCGEventMouseMoved (cx, cy) 0
      in [CGEventPost kCGHIDEventTap event, asyncio_sleep (fl (duration / fl (real_of_int steps)))]
         @ move_mouse_loop os start x y duration steps rest)"

definition move_mouse :: "os_env \<Rightarrow> macos_backend \<Rightarrow> int \<Rightarrow> int \<Rightarrow> real \<Rightarrow> unit run" where
  "move_mouse os b x y duration =
     (case ensure_ready b of
        Inl e \<Rightarrow> (Inl e, [])
      | Inr cg \<Rightarrow>
          if duration \<le> 0
          then (Inr (), [CGEventPost kCGHIDEventTap (CGEventCreateMouseEvent kCGEventMouseMoved (x, y) 0)])
          else
            (case get_mouse_position os b of
               (Inl e, effs) \<Rightarrow> (Inl e, effs)
             | (Inr start, effs) \<Rightarrow>
                 (let steps = max (py_int (float_round os (duration * 100))) 2
                  in (Inr (), effs @ move_mouse_loop os start x y duration steps
                                       (map (\<lambda>i. i + 1) (range_upto steps))))))"

text \<open>The loop of \<open>click\<close> over \<open>range(clicks)\<close>; field 1 is the click count.\<close>

fun click_loop :: "nat \<Rightarrow> nat \<Rightarrow> nat \<Rightarrow> int \<times> int \<Rightarrow> int \<Rightarrow> real \<Rightarrow> int list \<Rightarrow> effect list" where
  "click_loop down_type up_type cg_button pos clicks interval [] = []"
| "click_loop down_type up_type cg_button pos clicks interval (i # rest) =
     (let down_event = CGEventSetIntegerValueField (CGEventCreateMouseEvent down_type pos cg_button) 1 (i + 1);
          up_event = CGEventSetIntegerValueField (CGEventCreateMouseEvent up_type pos cg_button) 1 (i + 1)
      in [CGEventPost kCGHIDEventTap down_event, CGEventPost kCGHIDEventTap up_event]
         @ (if interval > 0 \<and> i < clicks - 1 then [asyncio_sleep interval] else [])
         @ click_loop down_type up_type cg_button pos clicks interval rest)"

text \<open>
  The first statement of \<open>click\<close>: with both coordinates it moves there, otherwise it reads
  the cursor and takes both coordinates from it. It yields the position to click at.
\<close>

definition click_target :: "os_env \<Rightarrow> macos_backend \<Rightarrow> int option \<Rightarrow> int option \<Rightarrow> (int \<times> int) run" where
  "click_target os b x y =
     (case (x, y) of
        (Some x', Some y') \<Rightarrow>
          (case move_mouse os b x' y' 0 of
             (Inl e, effs) \<Rightarrow> (Inl e, effs)
           | (Inr _, effs) \<Rightarrow> (Inr (x', y'), effs))
      | _ \<Rightarrow>
          (case get_mouse_position os b of
             (Inl e, effs) \<Rightarrow> (Inl e, effs)
           | (Inr pos, effs) \<Rightarrow> (Inr (point_x pos, point_y pos), effs)))"

definition click ::
  "os_env \<Rightarrow> macos_backend \<Rightarrow> int option \<Rightarrow> int option \<Rightarrow> mouse_button \<Rightarrow> int \<Rightarrow> real \<Rightarrow> unit run" where
  "click os b x y button clicks interval =
     (case ensure_ready b of
        Inl e \<Rightarrow> (Inl e, [])
      | Inr cg \<Rightarrow>
          (case click_target os b x y of
             (Inl e, effs) \<Rightarrow> (Inl e, effs)
           | (Inr pos, effs) \<Rightarrow>
               (case BUTTON_MAP button of
                  (down_type, up_type, cg_button) \<Rightarrow>
                    (Inr (), effs @ click_loop down_type up_type cg_button pos clicks interval
                                      (range_upto clicks)))))"

definition scroll :: "os_env \<Rightarrow> macos_backend \<Rightarrow> int \<Rightarrow> int option \<Rightarrow> int option \<Rightarrow> unit run" where
  "scroll os b clicks x y =
     (case ensure_ready b of
        Inl e \<Rightarrow> (Inl e, [])
      | Inr cg \<Rightarrow>
          (case (case (x, y) of
                   (Some x', Some y') \<Rightarrow> move_mouse os b x' y' 0
                 | _ \<Rightarrow> (Inr (), [])) of
             (Inl e, effs) \<Rightarrow> (Inl e, effs)
           | (Inr _, effs) \<Rightarrow>
               (Inr (), effs @ [CGEventPost kCGHIDEventTap (CGEventCreateScrollWheelEvent 0 1 clicks)])))"

subsection \<open>Locate\<close>

definition locate_on_screen ::
  "os_env \<Rightarrow> macos_backend \<Rightarrow> string \<Rightarrow> real \<Rightarrow> region option \<Rightarrow> locate_mode \<Rightarrow> region option run" where
  "locate_on_screen os b image_path confidence region mode =
     (case cv2_import os of
        None \<Rightarrow>
          (Inl (ImportError (''OpenCV is required for image location. Install with: pip install ''
                 @ [CHR 0x27] @ ''autoguix[locate]'' @ [CHR 0x27])), [])
      | Some cv2 \<Rightarrow>
          (case take_screenshot os b region of
             (Inl e, effs) \<Rightarrow> (Inl e, effs)
           | (Inr screenshot, effs) \<Rightarrow>
               (let screen_gray = cvtColor cv2 screenshot
                in (case imread cv2 image_path of
                      None \<Rightarrow> (Inl (FileNotFoundError image_path), effs)
                    | Some template \<Rightarrow>
                        (case minMaxLoc cv2 (matchTemplate cv2 screen_gray template) of
                           (min_val, max_val, min_loc, max_loc) \<Rightarrow>
                             if max_val < confidence then (Inr None, effs)
                             else
                               (let th = int (img_height template);
                                    tw = int (img_width template);
                                    ox = (case region of Some r \<Rightarrow> region_left r | None \<Rightarrow> 0);
                                    oy = (case region of Some r \<Rightarrow> region_top r | None \<Rightarrow> 0)
                                in (Inr (Some (Region (fst max_loc + ox) (snd max_loc + oy) tw th)), effs)))))))"

text \<open>
  \<open>np.where(result >= confidence)\<close>: the positions in row-major order, as (row, column). The
  scores are single-precision numbers, and numpy rounds the confidence to single precision
  (\<open>f32\<close>) before it compares.
\<close>

definition np_where_ge :: "(real \<Rightarrow> real) \<Rightarrow> real list list \<Rightarrow> real \<Rightarrow> (nat \<times> nat) list" where
  "np_where_ge f32 result confidence =
     concat (map (\<lambda>(r, row). map (\<lambda>(c, v). (r, c)) (filter (\<lambda>(c, v). v \<ge> f32 confidence) (zip [0 ..< length row] row)))
                 (zip [0 ..< length result] result))"

definition locate_all_on_screen ::
  "os_env \<Rightarrow> macos_backend \<Rightarrow> string \<Rightarrow> real \<Rightarrow> region option \<Rightarrow> locate_mode \<Rightarrow> region list run" where
  "locate_all_on_screen os b image_path confidence region mode =
     (case cv2_import os of
        None \<Rightarrow>
          (Inl (ImportError (''OpenCV is required for image location. Install with: pip install ''
                 @ [CHR 0x27] @ ''autoguix[locate]'' @ [CHR 0x27])), [])
      | Some cv2 \<Rightarrow>
          (case take_screenshot os b region of
             (Inl e, effs) \<Rightarrow> (Inl e, effs)
           | (Inr screenshot, effs) \<Rightarrow>
               (let screen_gray = cvtColor cv2 screenshot
                in (case imread cv2 image_path of
                      None \<Rightarrow> (Inl (FileNotFoundError image_path), effs)
                    | Some template \<Rightarrow>
                        (let locations = np_where_ge (float32_round os) (matchTemplate cv2 screen_gray template) confidence;
                             th = int (img_height template);
                             tw = int (img_width template);
                             ox = (case region of Some r \<Rightarrow> region_left r | None \<Rightarrow> 0);
                             oy = (case region of Some r \<Rightarrow> region_top r | None \<Rightarrow> 0)
                         in (Inr (map (\<lambda>(r, c). Region (int c + ox) (int r + oy) tw th) locations), effs))))))"

section \<open>The backend contract (\<open>core/backend_base.py\<close>)\<close>

text \<open>
  An awaited method of a backend, run in a world \<open>'w\<close>, yields its result or exception,
  the backend's own state afterwards and the world afterwards.
\<close>

type_synonym ('b, 'w, 'a) awaited = "'b \<Rightarrow> 'w \<Rightarrow> (error + 'a) \<times> 'b \<times> 'w"

text \<open>The abstract class: one field for each abstract method, in the order of the source.\<close>

record ('b, 'w) backend_base =
  bb_initialize :: "('b, 'w, unit) awaited"
  bb_cleanup :: "('b, 'w, unit) awaited"
  bb_get_mouse_position :: "('b, 'w, point) awaited"
  bb_move_mouse :: "int \<Rightarrow> int \<Rightarrow> real \<Rightarrow> ('b, 'w, unit) awaited"
  bb_click :: "int option \<Rightarrow> int option \<Rightarrow> mouse_button \<Rightarrow> int \<Rightarrow> real \<Rightarrow> ('b, 'w, unit) awaited"
  bb_scroll :: "int \<Rightarrow> int option \<Rightarrow> int option \<Rightarrow> ('b, 'w, unit) awaited"
  bb_press_key :: "string \<Rightarrow> ('b, 'w, unit) awaited"
  bb_key_down :: "string \<Rightarrow> ('b, 'w, unit) awaited"
  bb_key_up :: "string \<Rightarrow> ('b, 'w, unit) awaited"
  bb_type_text :: "string \<Rightarrow> real \<Rightarrow> ('b, 'w, unit) awaited"
  bb_hotkey :: "string list \<Rightarrow> ('b, 'w, unit) awaited"
  bb_get_screen_size :: "('b, 'w, size) awaited"
  bb_take_screenshot :: "region option \<Rightarrow> ('b, 'w, image) awaited"
  bb_locate_on_screen :: "string \<Rightarrow> real \<Rightarrow> region option \<Rightarrow> locate_mode \<Rightarrow> ('b, 'w, region option) awaited"
  bb_locate_all_on_screen :: "string \<Rightarrow> real \<Rightarrow> region option \<Rightarrow> locate_mode \<Rightarrow> ('b, 'w, region list) awaited"

text \<open>A backend object: its class and its own state.\<close>

record ('b, 'w) backend_obj =
  obj_class :: "('b, 'w) backend_base"
  obj_self :: 'b

text \<open>Calling a method on the object; the object is the same one afterwards, its state updated.\<close>

definition invoke ::
  "('b, 'w) backend_obj \<Rightarrow> (('b, 'w) backend_base \<Rightarrow> ('b, 'w, 'a) awaited) \<Rightarrow> 'w \<Rightarrow>
   (error + 'a) \<times> ('b, 'w) backend_obj \<times> 'w" where
  "invoke obj m w =
     (case m (obj_class obj) (obj_self obj) w of
        (r, b', w') \<Rightarrow> (r, obj\<lparr>obj_self := b'\<rparr>, w'))"

text \<open>
  The world of the macOS backend: what the machine answers and what has been done to it.
  \<open>MacOSBackend_class\<close> is the class \<open>MacOSBackend\<close> as an implementation of the contract.
\<close>

record world =
  w_os :: os_env
  w_effects :: "effect list"

definition lift :: "(os_env \<Rightarrow> macos_backend \<Rightarrow> 'a run) \<Rightarrow> (macos_backend, world, 'a) awaited" where
  "lift f b w =
     (case f (w_os w) b of
        (r, effs) \<Rightarrow> (r, b, w\<lparr>w_effects := w_effects w @ effs\<rparr>))"

definition MacOSBackend_class :: "(macos_backend, world) backend_base" where
  "MacOSBackend_class = \<lparr>
     bb_initialize = (\<lambda>b w. case initialize (w_os w) b of (r, b') \<Rightarrow> (r, b', w)),
     bb_cleanup = (\<lambda>b w. case cleanup b of (r, b') \<Rightarrow> (r, b', w)),
     bb_get_mouse_position = lift get_mouse_position,
     bb_move_mouse = (\<lambda>x y duration. lift (\<lambda>os b. move_mouse os b x y duration)),
     bb_click = (\<lambda>x y button clicks interval. lift (\<lambda>os b. click os b x y button clicks interval)),
     bb_scroll = (\<lambda>clicks x y. lift (\<lambda>os b. scroll os b clicks x y)),
     bb_press_key = (\<lambda>key. lift (\<lambda>os b. press_key os b key)),
     bb_key_down = (\<lambda>key. lift (\<lambda>os b. key_down os b key)),
     bb_key_up = (\<lambda>key. lift (\<lambda>os b. key_up os b key)),
     bb_type_text = (\<lambda>text interval. lift (\<lambda>os b. type_text os b text interval)),
     bb_hotkey = (\<lambda>keys. lift (\<lambda>os b. hotkey os b keys)),
     bb_get_screen_size = lift get_screen_size,
     bb_take_screenshot = (\<lambda>region. lift (\<lambda>os b. take_screenshot os b region)),
     bb_locate_on_screen = (\<lambda>image_path confidence region mode.
        lift (\<lambda>os b. locate_on_screen os b image_path confidence region mode)),
     bb_locate_all_on_screen = (\<lambda>image_path confidence region mode.
        lift (\<lambda>os b. locate_all_on_screen os b image_path confidence region mode))\<rparr>"

section \<open>The orchestrator (\<open>core/automation_core.py\<close>)\<close>

text \<open>
  \<open>_run\<close> runs a coroutine to completion and hands its result or exception over unchanged;
  which thread and which loop it uses is not modelled.
\<close>

definition run :: "'a \<Rightarrow> 'a" where
  "run coro = coro"

record ('b, 'w) automation_core =
  ac_backend :: "('b, 'w) backend_obj option"
  ac_initialized :: bool

definition AutomationCore :: "('b, 'w) automation_core" where
  "AutomationCore = \<lparr>ac_backend = None, ac_initialized = False\<rparr>"

definition ensure_initialized :: "('b, 'w) automation_core \<Rightarrow> error + ('b, 'w) backend_obj" where
  "ensure_initialized core =
     (case ac_backend core of
        None \<Rightarrow> Inl (RuntimeError ''AutoGUI-X is not initialized. Call autoguix.init() first.'')
      | Some obj \<Rightarrow>
          if \<not> ac_initialized core
          then Inl (RuntimeError ''AutoGUI-X is not initialized. Call autoguix.init() first.'')
          else Inr obj)"

definition core_init ::
  "(macos_backend, world) automation_core \<Rightarrow> world \<Rightarrow>
   (error + unit) \<times> (macos_backend, world) automation_core \<times> world" where
  "core_init core w =
     (if ac_initialized core then (Inr (), core, w)
      else if sys_platform (w_os w) \<noteq> ''darwin'' then (Inl (OSError (sys_platform (w_os w))), core, w)
      else
        (let obj = \<lparr>obj_class = MacOSBackend_class, obj_self = MacOSBackend\<rparr>
         in (case run (invoke obj bb_initialize w) of
               (Inl e, obj', w') \<Rightarrow> (Inl e, core\<lparr>ac_backend := Some obj'\<rparr>, w')
             | (Inr _, obj', w') \<Rightarrow>
                 (Inr (), core\<lparr>ac_backend := Some obj', ac_initialized := True\<rparr>, w'))))"

definition core_cleanup ::
  "('b, 'w) automation_core \<Rightarrow> 'w \<Rightarrow> (error + unit) \<times> ('b, 'w) automation_core \<times> 'w" where
  "core_cleanup core w =
     (case ac_backend core of
        None \<Rightarrow> (Inr (), core\<lparr>ac_backend := None, ac_initialized := False\<rparr>, w)
      | Some obj \<Rightarrow>
          (case run (invoke obj bb_cleanup w) of
             (Inl e, obj', w') \<Rightarrow> (Inl e, core\<lparr>ac_backend := Some obj'\<rparr>, w')
           | (Inr _, obj', w') \<Rightarrow>
               (Inr (), core\<lparr>ac_backend := None, ac_initialized := False\<rparr>, w')))"

text \<open>
  Every other method has the one shape \<open>_run(self._ensure_initialized().m(...))\<close>: the
  check comes first, and only when it returns the backend is the method called.
\<close>

definition delegate ::
  "('b, 'w) automation_core \<Rightarrow> (('b, 'w) backend_base \<Rightarrow> ('b, 'w, 'a) awaited) \<Rightarrow> 'w \<Rightarrow>
   (error + 'a) \<times> ('b, 'w) automation_core \<times> 'w" where
  "delegate core m w =
     (case ensure_initialized core of
        Inl e \<Rightarrow> (Inl e, core, w)
      | Inr obj \<Rightarrow>
          (case run (invoke obj m w) of
             (r, obj', w') \<Rightarrow> (r, core\<lparr>ac_backend := Some obj'\<rparr>, w')))"

definition core_get_screen_size where
  "core_get_screen_size core = delegate core bb_get_screen_size"

definition core_take_screenshot where
  "core_take_screenshot core region = delegate core (\<lambda>cls. bb_take_screenshot cls region)"

definition core_get_mouse_position where
  "core_get_mouse_position core = delegate core bb_get_mouse_position"

definition core_move_mouse where
  "core_move_mouse core x y duration = delegate core (\<lambda>cls. bb_move_mouse cls x y duration)"

definition core_click where
  "core_click core x y button clicks interval =
     delegate core (\<lambda>cls. bb_click cls x y button clicks interval)"

definition core_scroll where
  "core_scroll core clicks x y = delegate core (\<lambda>cls. bb_scroll cls clicks x y)"

definition core_press_key where
  "core_press_key core key = delegate core (\<lambda>cls. bb_press_key cls key)"

definition core_key_down where
  "core_key_down core key = delegate core (\<lambda>cls. bb_key_down cls key)"

definition core_key_up where
  "core_key_up core key = delegate core (\<lambda>cls. bb_key_up cls key)"

definition core_type_text where
  "core_type_text core text interval = delegate core (\<lambda>cls. bb_type_text cls text interval)"

definition core_hotkey where
  "core_hotkey core keys = delegate core (\<lambda>cls. bb_hotkey cls keys)"

definition core_locate_on_screen where
  "core_locate_on_screen core image_path confidence region mode =
     delegate core (\<lambda>cls. bb_locate_on_screen cls image_path confidence region mode)"

definition core_locate_all_on_screen where
  "core_locate_all_on_screen core image_path confidence region mode =
     delegate core (\<lambda>cls. bb_locate_all_on_screen cls image_path confidence region mode)"

subsection \<open>Sequences of calls\<close>

text \<open>One call on the orchestrator, with its arguments.\<close>

datatype call =
    Init
  | Cleanup
  | GetScreenSize
  | TakeScreenshot "region option"
  | GetMousePosition
  | MoveMouse int int real
  | Click "int option" "int option" mouse_button int real
  | Scroll int "int option" "int option"
  | PressKey string
  | KeyDown string
  | KeyUp string
  | TypeText string real
  | Hotkey "string list"
  | LocateOnScreen string real "region option" locate_mode
  | LocateAllOnScreen string real "region option" locate_mode

text \<open>The orchestrator and the world after a call, whether it returned or raised.\<close>

fun perform ::
  "call \<Rightarrow> (macos_backend, world) automation_core \<Rightarrow> world \<Rightarrow>
   (macos_backend, world) automation_core \<times> world" where
  "perform Init core w = snd (core_init core w)"
| "perform Cleanup core w = snd (core_cleanup core w)"
| "perform GetScreenSize core w = snd (core_get_screen_size core w)"
| "perform (TakeScreenshot region) core w = snd (core_take_screenshot core region w)"
| "perform GetMousePosition core w = snd (core_get_mouse_position core w)"
| "perform (MoveMouse x y duration) core w = snd (core_move_mouse core x y duration w)"
| "perform (Click x y button clicks interval) core w = snd (core_click core x y button clicks interval w)"
| "perform (Scroll clicks x y) core w = snd (core_scroll core clicks x y w)"
| "perform (PressKey key) core w = snd (core_press_key core key w)"
| "perform (KeyDown key) core w = snd (core_key_down core key w)"
| "perform (KeyUp key) core w = snd (core_key_up core key w)"
| "perform (TypeText text interval) core w = snd (core_type_text core text interval w)"
| "perform (Hotkey keys) core w = snd (core_hotkey core keys w)"
| "perform (LocateOnScreen image_path confidence region mode) core w =
     snd (core_locate_on_screen core image_path confidence region mode w)"
| "perform (LocateAllOnScreen image_path confidence region mode) core w =
     snd (core_locate_all_on_screen core image_path confidence region mode w)"

text \<open>
  The states of the orchestrator that calls can produce from a new one; between two calls
  the world may have changed in any way.
\<close>

inductive reachable :: "(macos_backend, world) automation_core \<Rightarrow> bool" where
  reachable_new: "reachable AutomationCore"
| reachable_call: "reachable core \<Longrightarrow> perform c core w = (core', w') \<Longrightarrow> reachable core'"

section \<open>Vocabulary of the statements\<close>

text \<open>The modifier flag of a key, zero for a key that is no modifier; and its key code.\<close>

definition modifier_flag :: "string \<Rightarrow> int" where
  "modifier_flag key = (case MODIFIER_FLAGS (lower key) of None \<Rightarrow> 0 | Some flag \<Rightarrow> flag)"

definition keycode :: "string \<Rightarrow> nat" where
  "keycode key = (case KEYCODE_MAP (lower key) of None \<Rightarrow> 0 | Some code \<Rightarrow> code)"

text \<open>The flags of all modifier keys among the keys pressed so far, or-ed together.\<close>

definition pressed_mask :: "string list \<Rightarrow> int" where
  "pressed_mask keys = foldl (\<lambda>m k. m OR modifier_flag k) 0 keys"

text \<open>
  The mask on the up event of the key at index \<open>i\<close>: the mask of all keys, from which the
  flags of the keys released so far (the last one down to this one) have been removed.
\<close>

definition released_mask :: "string list \<Rightarrow> nat \<Rightarrow> int" where
  "released_mask keys i = foldl (\<lambda>m k. m AND NOT (modifier_flag k)) (pressed_mask keys) (rev (drop i keys))"

text \<open>Two names that differ at most in the case of their letters.\<close>

definition other_case :: "char \<Rightarrow> char" where
  "other_case c =
     (case map_of (zip (''ABCDEFGHIJKLMNOPQRSTUVWXYZ'' @ ''abcdefghijklmnopqrstuvwxyz'')
                       (''abcdefghijklmnopqrstuvwxyz'' @ ''ABCDEFGHIJKLMNOPQRSTUVWXYZ'')) c of
        None \<Rightarrow> c
      | Some d \<Rightarrow> d)"

definition same_up_to_case :: "string \<Rightarrow> string \<Rightarrow> bool" where
  "same_up_to_case s t = list_all2 (\<lambda>a b. a = b \<or> a = other_case b) s t"





text \<open>The state error of the orchestrator.\<close>

definition state_error :: error where
  "state_error = RuntimeError ''AutoGUI-X is not initialized. Call autoguix.init() first.''"

text \<open>
  What the calls maintain: the backend, if there is one, is a \<open>MacOSBackend\<close>, and the
  orchestrator's flag is the backend's.
\<close>

definition core_inv :: "(macos_backend, world) automation_core \<Rightarrow> bool" where
  "core_inv core =
     (case ac_backend core of
        None \<Rightarrow> \<not> ac_initialized core
      | Some obj \<Rightarrow> obj_class obj = MacOSBackend_class \<and> ac_initialized core = mb_initialized (obj_self obj))"

section \<open>Concrete inputs\<close>

text \<open>A machine with macOS and Quartz, no OpenCV, the cursor at (100, 200), exact floats.\<close>

definition mac_os :: os_env where
  "mac_os = \<lparr>sys_platform = ''darwin'', float_round = (\<lambda>r. r), float32_round = (\<lambda>r. r),
     quartz_import = Some CoreGraphics,
     cv2_import = None, main_display_bounds = (1920, 1080), event_location = (100, 200),
     new_event_flags = 0, window_list_image = (\<lambda>region. None)\<rparr>"


definition mac_world :: world where
  "mac_world = \<lparr>w_os = mac_os, w_effects = []\<rparr>"

definition ready_backend :: macos_backend where
  "ready_backend = \<lparr>mb_cg = Some CoreGraphics, mb_initialized = True\<rparr>"

text \<open>A backend derived from the abstract class whose every method raises.\<close>

definition RaisingBackend :: "(unit, unit) backend_base" where
  "RaisingBackend = \<lparr>
     bb_initialize = (\<lambda>b w. (Inl (RuntimeError ''initialize failed''), b, w)),
     bb_cleanup = (\<lambda>b w. (Inl (RuntimeError ''cleanup failed''), b, w)),
     bb_get_mouse_position = (\<lambda>b w. (Inl (RuntimeError ''failed''), b, w)),
     bb_move_mouse = (\<lambda>x y duration b w. (Inl (RuntimeError ''failed''), b, w)),
     bb_click = (\<lambda>x y button clicks interval b w. (Inl (RuntimeError ''failed''), b, w)),
     bb_scroll = (\<lambda>clicks x y b w. (Inl (RuntimeError ''failed''), b, w)),
     bb_press_key = (\<lambda>key b w. (Inl (RuntimeError ''failed''), b, w)),
     bb_key_down = (\<lambda>key b w. (Inl (RuntimeError ''failed''), b, w)),
     bb_key_up = (\<lambda>key b w. (Inl (RuntimeError ''failed''), b, w)),
     bb_type_text = (\<lambda>text interval b w. (Inl (RuntimeError ''failed''), b, w)),
     bb_hotkey = (\<lambda>keys b w. (Inl (RuntimeError ''failed''), b, w)),
     bb_get_screen_size = (\<lambda>b w. (Inl (RuntimeError ''failed''), b, w)),
     bb_take_screenshot = (\<lambda>region b w. (Inl (RuntimeError ''failed''), b, w)),
     bb_locate_on_screen = (\<lambda>image_path confidence region mode b w. (Inl (RuntimeError ''failed''), b, w)),
     bb_locate_all_on_screen = (\<lambda>image_path confidence region mode b w. (Inl (RuntimeError ''failed''), b, w))\<rparr>"

text \<open>An OpenCV that loads one template and reports one best match.\<close>

definition demo_cv2 :: cv2_module where
  "demo_cv2 = \<lparr>
     imread = (\<lambda>path. if path = ''button.png'' then Some (Image 12 30 []) else None),
     cvtColor = (\<lambda>img. img),
     matchTemplate = (\<lambda>img template. [[1/2, 19/20]]),
     minMaxLoc = (\<lambda>result. (1/2, 19/20, (0, 0), (1, 0)))\<rparr>"

definition cv_os :: os_env where
  "cv_os = mac_os\<lparr>cv2_import := Some demo_cv2, window_list_image := (\<lambda>region. Some (Image 100 200 []))\<rparr>"

text \<open>An orchestrator after a successful \<open>init\<close>.\<close>

definition ready_core :: "(macos_backend, world) automation_core" where
  "ready_core = \<lparr>ac_backend = Some \<lparr>obj_class = MacOSBackend_class, obj_self = ready_backend\<rparr>,
     ac_initialized = True\<rparr>"

text \<open>An orchestrator that holds a backend whose cleanup raises.\<close>

definition raising_core :: "(unit, unit) automation_core" where
  "raising_core = \<lparr>ac_backend = Some \<lparr>obj_class = RaisingBackend, obj_self = ()\<rparr>,
     ac_initialized = True\<rparr>"

section \<open>Key resolution\<close>

lemma resolve_keycode_Inl:
  "KEYCODE_MAP (lower key) = None \<Longrightarrow> resolve_keycode key = Inl (ValueError key)"
  by (simp add: resolve_keycode_def)

lemma hotkey_build_unknown:
  "\<exists>k \<in> set keys. KEYCODE_MAP (lower k) = None \<Longrightarrow>
   \<exists>k \<in> set keys. KEYCODE_MAP (lower k) = None \<and> hotkey_build os keys flags evs = Inl (ValueError k)"
proof (induction keys arbitrary: flags evs)
  case Nil
  then show ?case by simp
next
  case (Cons key keys)
  show ?case
  proof (cases "KEYCODE_MAP (lower key)")
    case None
    then show ?thesis by (simp add: resolve_keycode_def)
  next
    case (Some code)
    with Cons.prems have "\<exists>k \<in> set keys. KEYCODE_MAP (lower k) = None" by auto
    from Cons.IH [OF this] Some show ?thesis
      by (simp add: resolve_keycode_def Let_def)
  qed
qed

lemma ready_backend_ready: "ensure_ready ready_backend = Inr CoreGraphics"
  by (simp add: ensure_ready_def ready_backend_def)

lemma flags_or: "(case MODIFIER_FLAGS (lower key) of None \<Rightarrow> flags
        | Some mod_flag \<Rightarrow> if mod_flag \<noteq> 0 then flags OR mod_flag else flags) = flags OR modifier_flag key"
  by (simp add: modifier_flag_def split: option.splits)

lemma flags_and_not: "(case MODIFIER_FLAGS (lower key) of None \<Rightarrow> flags
        | Some mod_flag \<Rightarrow> if mod_flag \<noteq> 0 then flags AND NOT mod_flag else flags) = flags AND NOT (modifier_flag key)"
  by (simp add: modifier_flag_def split: option.splits)

lemma resolve_keycode_known: "KEYCODE_MAP (lower key) \<noteq> None \<Longrightarrow> resolve_keycode key = Inr (keycode key)"
  by (auto simp: resolve_keycode_def keycode_def)

lemma lower_char_other_case: "lower_char (other_case c) = lower_char c"
  by (simp add: other_case_def lower_char_def)

lemma same_up_to_case_lower: "same_up_to_case s t \<Longrightarrow> lower s = lower t"
  unfolding same_up_to_case_def lower_def
  by (induction s t rule: list_all2_induct) (auto simp: lower_char_other_case)

lemma KEYCODE_MAP_keys_lower:
  assumes "KEYCODE_MAP name = Some code"
  shows "lower name = name"
proof -
  from map_of_SomeD [OF assms [unfolded KEYCODE_MAP_def]] show ?thesis
    by (auto simp: lower_def lower_char_def)
qed

section \<open>A failing hotkey posts nothing\<close>

text \<open>
  C10. When some key of the list is not in the key-code table, \<open>hotkey\<close> has no effect at
  all, whatever the position of that key and whatever the state of the backend: no event is
  posted and nothing is suspended, so no earlier key of the list is left held down. On a
  ready backend the exception is the value error of an unrecognized key of the list.
\<close>

theorem hotkey_unknown_key_posts_nothing:
  assumes "\<exists>k \<in> set keys. KEYCODE_MAP (lower k) = None"
  shows "snd (hotkey os b keys) = [] \<and>
         (\<forall>cg. ensure_ready b = Inr cg \<longrightarrow>
            (\<exists>k \<in> set keys. KEYCODE_MAP (lower k) = None \<and>
               hotkey os b keys = (Inl (ValueError k), [])))"
proof -
  from hotkey_build_unknown [OF assms, of os 0 "[]"]
  obtain k where k: "k \<in> set keys" "KEYCODE_MAP (lower k) = None"
    "hotkey_build os keys 0 [] = Inl (ValueError k)" by blast
  then have "snd (hotkey os b keys) = []"
    by (simp add: hotkey_def split: sum.splits)
  moreover have "\<exists>k \<in> set keys. KEYCODE_MAP (lower k) = None \<and> hotkey os b keys = (Inl (ValueError k), [])"
    if "ensure_ready b = Inr cg" for cg
    using k that by (auto simp: hotkey_def)
  ultimately show ?thesis by blast
qed

theorem hotkey_unknown_key_posts_nothing_witness:
  "(\<exists>k \<in> set [''cmd'', ''Bogus'', ''c'']. KEYCODE_MAP (lower k) = None) \<and>
   ensure_ready ready_backend = Inr CoreGraphics \<and>
   hotkey mac_os ready_backend [''cmd'', ''Bogus'', ''c''] = (Inl (ValueError ''Bogus''), [])"
proof -
  have h: "\<exists>k \<in> set [''cmd'', ''Bogus'', ''c'']. KEYCODE_MAP (lower k) = None"
    by (simp add: KEYCODE_MAP_def lower_def lower_char_def)
  note r = ready_backend_ready
  have known: "KEYCODE_MAP (lower ''cmd'') \<noteq> None" "KEYCODE_MAP (lower ''c'') \<noteq> None"
    by (simp_all add: KEYCODE_MAP_def lower_def lower_char_def)
  from hotkey_unknown_key_posts_nothing [OF h, of mac_os ready_backend] r
  obtain k where "k \<in> set [''cmd'', ''Bogus'', ''c'']" "KEYCODE_MAP (lower k) = None"
    "hotkey mac_os ready_backend [''cmd'', ''Bogus'', ''c''] = (Inl (ValueError k), [])"
    by blast
  with known have "hotkey mac_os ready_backend [''cmd'', ''Bogus'', ''c''] = (Inl (ValueError ''Bogus''), [])"
    by auto
  with h r show ?thesis by blast
qed

section \<open>Unrecognized key names\<close>

text \<open>
  C9. On a ready backend, a key name whose lower-cased form is not in the key-code table
  makes each of \<open>key_down\<close>, \<open>key_up\<close> and \<open>press_key\<close> raise the value error, and makes
  \<open>hotkey\<close> raise it when it is any member of the argument list. A name of the table is
  resolved to its code whatever the case of the letters of the argument.
\<close>

theorem keyboard_value_error:
  assumes "ensure_ready b = Inr cg"
  shows "(KEYCODE_MAP (lower key) = None \<longrightarrow>
            key_down os b key = (Inl (ValueError key), []) \<and>
            key_up os b key = (Inl (ValueError key), []) \<and>
            press_key os b key = (Inl (ValueError key), [])) \<and>
         ((\<exists>k \<in> set keys. KEYCODE_MAP (lower k) = None) \<longrightarrow>
            (\<exists>k \<in> set keys. KEYCODE_MAP (lower k) = None \<and> fst (hotkey os b keys) = Inl (ValueError k))) \<and>
         (\<forall>code. KEYCODE_MAP name = Some code \<and> same_up_to_case arg name \<longrightarrow>
            resolve_keycode arg = Inr code)"
proof (intro conjI impI allI)
  assume "KEYCODE_MAP (lower key) = None"
  then have r: "resolve_keycode key = Inl (ValueError key)" by (rule resolve_keycode_Inl)
  show "key_down os b key = (Inl (ValueError key), [])" by (simp add: key_down_def assms r)
  then show "press_key os b key = (Inl (ValueError key), [])" by (simp add: press_key_def)
  show "key_up os b key = (Inl (ValueError key), [])" by (simp add: key_up_def assms r)
next
  assume "\<exists>k \<in> set keys. KEYCODE_MAP (lower k) = None"
  from hotkey_build_unknown [OF this, of os 0 "[]"]
  show "\<exists>k \<in> set keys. KEYCODE_MAP (lower k) = None \<and> fst (hotkey os b keys) = Inl (ValueError k)"
    by (auto simp: hotkey_def assms)
next
  fix code assume a: "KEYCODE_MAP name = Some code \<and> same_up_to_case arg name"
  then have "lower arg = name"
    using same_up_to_case_lower [of arg name] KEYCODE_MAP_keys_lower [of name code] by simp
  with a show "resolve_keycode arg = Inr code" by (simp add: resolve_keycode_def)
qed

theorem keyboard_value_error_witness:
  "ensure_ready ready_backend = Inr CoreGraphics \<and>
   KEYCODE_MAP (lower ''nonexistent_key'') = None \<and>
   key_down mac_os ready_backend ''nonexistent_key'' = (Inl (ValueError ''nonexistent_key''), []) \<and>
   key_up mac_os ready_backend ''nonexistent_key'' = (Inl (ValueError ''nonexistent_key''), []) \<and>
   press_key mac_os ready_backend ''nonexistent_key'' = (Inl (ValueError ''nonexistent_key''), []) \<and>
   fst (hotkey mac_os ready_backend [''ctrl'', ''nope'']) = Inl (ValueError ''nope'') \<and>
   KEYCODE_MAP ''command'' = Some 55 \<and> same_up_to_case ''CoMmAnD'' ''command'' \<and>
   resolve_keycode ''CoMmAnD'' = Inr 55"
proof -
  have unknown: "KEYCODE_MAP (lower ''nonexistent_key'') = None" "KEYCODE_MAP (lower ''nope'') = None"
    by (simp_all add: KEYCODE_MAP_def lower_def lower_char_def)
  have ctrl: "KEYCODE_MAP (lower ''ctrl'') \<noteq> None"
    by (simp add: KEYCODE_MAP_def lower_def lower_char_def)
  have command: "KEYCODE_MAP ''command'' = Some 55"
    by (simp add: KEYCODE_MAP_def)
  have variant: "same_up_to_case ''CoMmAnD'' ''command''"
    by (simp add: same_up_to_case_def other_case_def)
  from keyboard_value_error [OF ready_backend_ready, of "''nonexistent_key''" mac_os "[''ctrl'', ''nope'']"
      "''command''" "''CoMmAnD''"] unknown ctrl command variant ready_backend_ready
  show ?thesis by auto
qed

section \<open>The events of a hotkey\<close>

lemma map_upt_shift: "map f [0 ..< Suc n] = f 0 # map (\<lambda>i. f (Suc i)) [0 ..< n]"
proof -
  have "[0 ..< Suc n] = 0 # map Suc [0 ..< n]"
    by (simp add: upt_conv_Cons map_Suc_upt del: upt_Suc)
  then show ?thesis by (simp add: comp_def del: upt_Suc)
qed

lemma hotkey_build_known:
  "\<forall>k \<in> set keys. KEYCODE_MAP (lower k) \<noteq> None \<Longrightarrow>
   hotkey_build os keys flags evs =
     Inr (foldl (\<lambda>m k. m OR modifier_flag k) flags keys,
          evs @ map (\<lambda>i. KeyboardEvent (keycode (keys ! i)) True
                           (foldl (\<lambda>m k. m OR modifier_flag k) flags (take (Suc i) keys)) None)
                    [0 ..< length keys])"
proof (induction keys arbitrary: flags evs)
  case Nil
  then show ?case by simp
next
  case (Cons key keys)
  then have known: "KEYCODE_MAP (lower key) \<noteq> None" and rest: "\<forall>k \<in> set keys. KEYCODE_MAP (lower k) \<noteq> None"
    by simp_all
  show ?case
    by (simp add: resolve_keycode_known [OF known] flags_or Let_def Cons.IH [OF rest]
        CGEventCreateKeyboardEvent_def map_upt_shift del: upt_Suc)
qed

lemma hotkey_release_known:
  "\<forall>k \<in> set keys. KEYCODE_MAP (lower k) \<noteq> None \<Longrightarrow>
   hotkey_release os keys flags =
     (Inr (), map (\<lambda>j. CGEventPost kCGHIDEventTap (KeyboardEvent (keycode (keys ! j)) False
                           (foldl (\<lambda>m k. m AND NOT (modifier_flag k)) flags (take (Suc j) keys)) None))
                    [0 ..< length keys])"
proof (induction keys arbitrary: flags)
  case Nil
  then show ?case by simp
next
  case (Cons key keys)
  then have known: "KEYCODE_MAP (lower key) \<noteq> None" and rest: "\<forall>k \<in> set keys. KEYCODE_MAP (lower k) \<noteq> None"
    by simp_all
  show ?case
    by (simp add: resolve_keycode_known [OF known] flags_and_not Let_def Cons.IH [OF rest]
        CGEventCreateKeyboardEvent_def map_upt_shift del: upt_Suc)
qed

lemma map_rev_index: "map (\<lambda>j. f (rev xs ! j) (take (Suc j) (rev xs))) [0 ..< length xs]
   = map (\<lambda>i. f (xs ! i) (rev (drop i xs))) (rev [0 ..< length xs])"
proof (rule nth_equalityI)
  show "length (map (\<lambda>j. f (rev xs ! j) (take (Suc j) (rev xs))) [0 ..< length xs]) =
        length (map (\<lambda>i. f (xs ! i) (rev (drop i xs))) (rev [0 ..< length xs]))" by simp
next
  fix j assume "j < length (map (\<lambda>j. f (rev xs ! j) (take (Suc j) (rev xs))) [0 ..< length xs])"
  then have j: "j < length xs" by simp
  then have a: "rev [0 ..< length xs] ! j = length xs - Suc j" by (simp add: rev_nth)
  have b: "rev xs ! j = xs ! (length xs - Suc j)" using j by (simp add: rev_nth)
  have c: "take (Suc j) (rev xs) = rev (drop (length xs - Suc j) xs)"
    using j by (simp add: take_rev Suc_diff_Suc)
  show "map (\<lambda>j. f (rev xs ! j) (take (Suc j) (rev xs))) [0 ..< length xs] ! j =
        map (\<lambda>i. f (xs ! i) (rev (drop i xs))) (rev [0 ..< length xs]) ! j"
    using j a b c by simp
qed

text \<open>
  C4. For a list of \<open>n\<close> recognized key names, \<open>hotkey\<close> on a ready backend posts exactly
  \<open>n\<close> down events in the order of the list and then \<open>n\<close> up events in the reverse order.
  The down event of the key at index \<open>i\<close> carries the flags of all modifier keys among the
  keys up to and including it; the up event of a key carries the mask from which the flags
  of the keys released so far, its own included, have been removed: the mask starts as that
  of all keys, and each release removes the flag of the released key from it.
\<close>

theorem hotkey_events:
  assumes "\<forall>k \<in> set keys. KEYCODE_MAP (lower k) \<noteq> None" and "ensure_ready b = Inr cg"
  shows "hotkey os b keys =
    (Inr (),
     map (\<lambda>i. CGEventPost kCGHIDEventTap
                 (KeyboardEvent (keycode (keys ! i)) True (pressed_mask (take (Suc i) keys)) None))
         [0 ..< length keys]
     @ map (\<lambda>i. CGEventPost kCGHIDEventTap
                 (KeyboardEvent (keycode (keys ! i)) False (released_mask keys i) None))
         (rev [0 ..< length keys])) \<and>
    released_mask keys (length keys) = pressed_mask keys \<and>
    (\<forall>i < length keys.
       released_mask keys i = released_mask keys (Suc i) AND NOT (modifier_flag (keys ! i)))"
proof (intro conjI allI impI)
  have r: "\<forall>k \<in> set (rev keys). KEYCODE_MAP (lower k) \<noteq> None" using assms(1) by simp
  have "hotkey_release os (rev keys) (pressed_mask keys) =
     (Inr (), map (\<lambda>i. CGEventPost kCGHIDEventTap
                 (KeyboardEvent (keycode (keys ! i)) False (released_mask keys i) None))
         (rev [0 ..< length keys]))"
    unfolding hotkey_release_known [OF r] released_mask_def
    using map_rev_index [of "\<lambda>k pre. CGEventPost kCGHIDEventTap
                 (KeyboardEvent (keycode k) False (foldl (\<lambda>m k. m AND NOT (modifier_flag k)) (pressed_mask keys) pre) None)" keys]
    by simp
  then show "hotkey os b keys =
    (Inr (),
     map (\<lambda>i. CGEventPost kCGHIDEventTap
                 (KeyboardEvent (keycode (keys ! i)) True (pressed_mask (take (Suc i) keys)) None))
         [0 ..< length keys]
     @ map (\<lambda>i. CGEventPost kCGHIDEventTap
                 (KeyboardEvent (keycode (keys ! i)) False (released_mask keys i) None))
         (rev [0 ..< length keys]))"
    by (simp add: hotkey_def assms(2) hotkey_build_known [OF assms(1)] pressed_mask_def comp_def)
next
  show "released_mask keys (length keys) = pressed_mask keys"
    by (simp add: released_mask_def)
next
  fix i assume "i < length keys"
  then have "drop i keys = keys ! i # drop (Suc i) keys"
    by (simp add: Cons_nth_drop_Suc)
  then show "released_mask keys i = released_mask keys (Suc i) AND NOT (modifier_flag (keys ! i))"
    by (simp add: released_mask_def)
qed

theorem hotkey_events_witness:
  "(\<exists>cg. ensure_ready ready_backend = Inr cg) \<and>
   KEYCODE_MAP (lower ''cmd'') \<noteq> None \<and> KEYCODE_MAP (lower ''Shift'') \<noteq> None \<and>
   KEYCODE_MAP (lower ''z'') \<noteq> None \<and>
   hotkey mac_os ready_backend [''cmd'', ''Shift'', ''z''] =
     (Inr (),
      [CGEventPost 0 (KeyboardEvent 55 True 1048576 None),
       CGEventPost 0 (KeyboardEvent 56 True 1179648 None),
       CGEventPost 0 (KeyboardEvent 6 True 1179648 None),
       CGEventPost 0 (KeyboardEvent 6 False 1179648 None),
       CGEventPost 0 (KeyboardEvent 56 False 1048576 None),
       CGEventPost 0 (KeyboardEvent 55 False 0 None)])"
proof -
  have known: "KEYCODE_MAP (lower ''cmd'') \<noteq> None" "KEYCODE_MAP (lower ''Shift'') \<noteq> None"
    "KEYCODE_MAP (lower ''z'') \<noteq> None"
    by (simp_all add: KEYCODE_MAP_def lower_def lower_char_def)
  then have all: "\<forall>k \<in> set [''cmd'', ''Shift'', ''z'']. KEYCODE_MAP (lower k) \<noteq> None" by simp
  have codes: "keycode ''cmd'' = 55" "keycode ''Shift'' = 56" "keycode ''z'' = 6"
    by (simp_all add: keycode_def KEYCODE_MAP_def lower_def lower_char_def)
  have flags: "modifier_flag ''cmd'' = 1048576" "modifier_flag ''Shift'' = 131072" "modifier_flag ''z'' = 0"
    by (simp_all add: modifier_flag_def MODIFIER_FLAGS_def lower_def lower_char_def)
  have ors: "(1048576 :: int) OR 131072 = 1179648" "(1179648 :: int) AND NOT 131072 = 1048576"
    "(1048576 :: int) AND NOT 1048576 = 0"
    by simp_all
  from hotkey_events [OF all ready_backend_ready, of mac_os, THEN conjunct1] known ready_backend_ready
  show ?thesis
    by (simp add: codes flags ors pressed_mask_def released_mask_def kCGHIDEventTap_def upt_rec)
qed

section \<open>Typing text\<close>

lemma type_text_loop_concat:
  "type_text_loop os interval text =
     concat (map (\<lambda>ch. [CGEventPost kCGHIDEventTap (KeyboardEvent 0 True (new_event_flags os) (Some [ch])),
                         CGEventPost kCGHIDEventTap (KeyboardEvent 0 False (new_event_flags os) (Some [ch]))]
                        @ (if interval > 0 then [asyncio_sleep interval] else [])) text)"
  by (induction "text") (simp_all add: CGEventCreateKeyboardEvent_def)

text \<open>
  C8. \<open>type_text\<close> never raises a value error. On a ready backend it returns and posts, for
  each character of the text in order, a down event and then an up event that carry this
  character as their Unicode string, with key code 0 and no lookup; when the interval is
  positive it suspends for the interval after the two events of each character, hence
  between any two characters.
\<close>

theorem type_text_events:
  "(\<forall>key. fst (type_text os b text interval) \<noteq> Inl (ValueError key)) \<and>
   (\<forall>cg. ensure_ready b = Inr cg \<longrightarrow>
      type_text os b text interval =
        (Inr (),
         concat (map (\<lambda>ch. [CGEventPost kCGHIDEventTap (KeyboardEvent 0 True (new_event_flags os) (Some [ch])),
                             CGEventPost kCGHIDEventTap (KeyboardEvent 0 False (new_event_flags os) (Some [ch]))]
                            @ (if interval > 0 then [asyncio_sleep interval] else [])) text)))"
  by (auto simp: type_text_def type_text_loop_concat ensure_ready_def split: option.splits sum.splits if_splits)

theorem type_text_events_witness:
  "ensure_ready ready_backend = Inr CoreGraphics \<and>
   type_text mac_os ready_backend ''hi'' (1/2) =
     (Inr (),
      [CGEventPost 0 (KeyboardEvent 0 True 0 (Some ''h'')),
       CGEventPost 0 (KeyboardEvent 0 False 0 (Some ''h'')),
       asyncio_sleep (1/2),
       CGEventPost 0 (KeyboardEvent 0 True 0 (Some ''i'')),
       CGEventPost 0 (KeyboardEvent 0 False 0 (Some ''i'')),
       asyncio_sleep (1/2)])"
  using type_text_events [of mac_os ready_backend "''hi''" "1/2"] ready_backend_ready
  by (simp add: kCGHIDEventTap_def mac_os_def)

section \<open>Clicking\<close>

lemma range_upto_shift: "map (\<lambda>i. i + 1) (range_upto n) = [1..n]"
proof -
  have nat_case: "map (\<lambda>i. int i + 1) [0 ..< k] = [1..int k]" for k
  proof (induction k)
    case 0
    then show ?case by simp
  next
    case (Suc k)
    have "[1..int (Suc k)] = [1..int k] @ [int k + 1]"
      using upto_rec2 [of 1 "int k + 1"] by (simp add: add.commute)
    with Suc show ?case by simp
  qed
  show ?thesis
  proof (cases "n \<le> 0")
    case True
    then show ?thesis by (simp add: range_upto_def)
  next
    case False
    then show ?thesis using nat_case [of "nat n"] by (simp add: range_upto_def comp_def)
  qed
qed

lemma click_loop_concat:
  "click_loop down_type up_type cg_button pos clicks interval is =
     concat (map (\<lambda>n. [CGEventPost kCGHIDEventTap (MouseEvent down_type pos cg_button [(1, n)]),
                        CGEventPost kCGHIDEventTap (MouseEvent up_type pos cg_button [(1, n)])]
                       @ (if interval > 0 \<and> n < clicks then [asyncio_sleep interval] else []))
                 (map (\<lambda>i. i + 1) is))"
  by (induction "is") (simp_all add: CGEventCreateMouseEvent_def)

lemma move_mouse_instant:
  "ensure_ready b = Inr cg \<Longrightarrow> duration \<le> 0 \<Longrightarrow>
   move_mouse os b x y duration =
     (Inr (), [CGEventPost kCGHIDEventTap (MouseEvent kCGEventMouseMoved (x, y) 0 [])])"
  by (simp add: move_mouse_def CGEventCreateMouseEvent_def)

lemma get_mouse_position_ready:
  "ensure_ready b = Inr cg \<Longrightarrow>
   get_mouse_position os b =
     (Inr (Point (py_int (fst (event_location os))) (py_int (snd (event_location os)))), [])"
  by (simp add: get_mouse_position_def split: prod.splits)

text \<open>
  C5. On a ready backend, \<open>click\<close> with both coordinates first posts one move event to
  them and clicks there; with a coordinate missing it clicks at the cursor's position. For
  each \<open>n\<close> from 1 to \<open>clicks\<close>, in order, it posts the down event and then the up event of
  the button, both with click count \<open>n\<close>, and suspends for the interval after them exactly
  when the interval is positive and \<open>n\<close> is not the last.
\<close>

theorem click_events:
  assumes "ensure_ready b = Inr cg"
  shows "(let presses = (\<lambda>pos.
              concat (map (\<lambda>n. [CGEventPost kCGHIDEventTap
                                   (MouseEvent (fst (BUTTON_MAP button)) pos (snd (snd (BUTTON_MAP button))) [(1, n)]),
                                 CGEventPost kCGHIDEventTap
                                   (MouseEvent (fst (snd (BUTTON_MAP button))) pos (snd (snd (BUTTON_MAP button))) [(1, n)])]
                                @ (if interval > 0 \<and> n < clicks then [asyncio_sleep interval] else []))
                          [1..clicks]))
          in (\<forall>x' y'. x = Some x' \<and> y = Some y' \<longrightarrow>
                click os b x y button clicks interval =
                  (Inr (), CGEventPost kCGHIDEventTap (MouseEvent kCGEventMouseMoved (x', y') 0 [])
                           # presses (x', y'))) \<and>
             (x = None \<or> y = None \<longrightarrow>
                click os b x y button clicks interval =
                  (Inr (), presses (py_int (fst (event_location os)), py_int (snd (event_location os))))))"
proof -
  have given: "click_target os b (Some x') (Some y') =
      (Inr (x', y'), [CGEventPost kCGHIDEventTap (MouseEvent kCGEventMouseMoved (x', y') 0 [])])" for x' y'
    by (simp add: click_target_def move_mouse_instant [OF assms])
  have missing: "click_target os b x y =
      (Inr (py_int (fst (event_location os)), py_int (snd (event_location os))), [])" if "x = None \<or> y = None"
    using that by (auto simp: click_target_def get_mouse_position_ready [OF assms] split: option.splits)
  show ?thesis
    unfolding Let_def
  proof (intro conjI allI impI)
    fix x' y' assume "x = Some x' \<and> y = Some y'"
    then show "click os b x y button clicks interval =
        (Inr (), CGEventPost kCGHIDEventTap (MouseEvent kCGEventMouseMoved (x', y') 0 [])
           # concat (map (\<lambda>n. [CGEventPost kCGHIDEventTap
                                   (MouseEvent (fst (BUTTON_MAP button)) (x', y') (snd (snd (BUTTON_MAP button))) [(1, n)]),
                                 CGEventPost kCGHIDEventTap
                                   (MouseEvent (fst (snd (BUTTON_MAP button))) (x', y') (snd (snd (BUTTON_MAP button))) [(1, n)])]
                                @ (if interval > 0 \<and> n < clicks then [asyncio_sleep interval] else []))
                          [1..clicks]))"
      by (simp add: click_def assms given click_loop_concat range_upto_shift split: prod.splits)
  next
    assume "x = None \<or> y = None"
    from missing [OF this]
    show "click os b x y button clicks interval =
        (Inr (), concat (map (\<lambda>n. [CGEventPost kCGHIDEventTap
                                   (MouseEvent (fst (BUTTON_MAP button)) (py_int (fst (event_location os)), py_int (snd (event_location os))) (snd (snd (BUTTON_MAP button))) [(1, n)]),
                                 CGEventPost kCGHIDEventTap
                                   (MouseEvent (fst (snd (BUTTON_MAP button))) (py_int (fst (event_location os)), py_int (snd (event_location os))) (snd (snd (BUTTON_MAP button))) [(1, n)])]
                                @ (if interval > 0 \<and> n < clicks then [asyncio_sleep interval] else []))
                          [1..clicks]))"
      by (simp add: click_def assms click_loop_concat range_upto_shift split: prod.splits)
  qed
qed

theorem click_events_witness:
  "ensure_ready ready_backend = Inr CoreGraphics \<and>
   click mac_os ready_backend (Some 50) (Some 60) LEFT 2 (1/4) =
     (Inr (),
      [CGEventPost 0 (MouseEvent 5 (50, 60) 0 []),
       CGEventPost 0 (MouseEvent 1 (50, 60) 0 [(1, 1)]),
       CGEventPost 0 (MouseEvent 2 (50, 60) 0 [(1, 1)]),
       asyncio_sleep (1/4),
       CGEventPost 0 (MouseEvent 1 (50, 60) 0 [(1, 2)]),
       CGEventPost 0 (MouseEvent 2 (50, 60) 0 [(1, 2)])]) \<and>
   click mac_os ready_backend None (Some 60) RIGHT 1 0 =
     (Inr (),
      [CGEventPost 0 (MouseEvent 3 (100, 200) 1 [(1, 1)]),
       CGEventPost 0 (MouseEvent 4 (100, 200) 1 [(1, 1)])])"
proof -
  have u: "[1..2::int] = [1, 2]" "[1..1::int] = [1]" by (simp_all add: upto_rec1)
  from click_events [OF ready_backend_ready, of LEFT "1/4" 2 "Some 50" "Some 60" mac_os]
       click_events [OF ready_backend_ready, of RIGHT 0 1 None "Some 60" mac_os]
       ready_backend_ready
  show ?thesis
    by (simp add: u kCGHIDEventTap_def kCGEventMouseMoved_def mac_os_def py_int_def)
qed

section \<open>Moving the mouse\<close>































section \<open>Locating an image\<close>

text \<open>
  C7. When OpenCV is present and the screen has been captured, \<open>locate_on_screen\<close> raises
  the not-found error for a template that cannot be loaded. Otherwise it returns \<open>None\<close>
  exactly when the best score is below the confidence, and when the best score is at least
  the confidence it returns the region of the template's width and height at the best
  position, moved by the origin of the search region if there is one.
\<close>

theorem locate_on_screen_result:
  assumes "cv2_import os = Some cv2" and "ensure_ready b = Inr cg"
    and "window_list_image os region = Some screenshot"
  shows "(imread cv2 image_path = None \<longrightarrow>
            fst (locate_on_screen os b image_path confidence region mode) = Inl (FileNotFoundError image_path)) \<and>
         (\<forall>template. imread cv2 image_path = Some template \<longrightarrow>
            (case minMaxLoc cv2 (matchTemplate cv2 (cvtColor cv2 screenshot) template) of
               (min_val, max_val, min_loc, max_loc) \<Rightarrow>
                 (fst (locate_on_screen os b image_path confidence region mode) = Inr None \<longleftrightarrow>
                    max_val < confidence) \<and>
                 (max_val \<ge> confidence \<longrightarrow>
                    fst (locate_on_screen os b image_path confidence region mode) =
                      Inr (Some (Region (fst max_loc + (case region of Some r \<Rightarrow> region_left r | None \<Rightarrow> 0))
                                        (snd max_loc + (case region of Some r \<Rightarrow> region_top r | None \<Rightarrow> 0))
                                        (int (img_width template)) (int (img_height template)))))))"
  using assms by (auto simp: locate_on_screen_def take_screenshot_def Let_def split: if_splits)

theorem locate_on_screen_result_witness:
  "cv2_import cv_os = Some demo_cv2 \<and> ensure_ready ready_backend = Inr CoreGraphics \<and>
   window_list_image cv_os (Some (Region 10 20 300 400)) = Some (Image 100 200 []) \<and>
   imread demo_cv2 ''missing.png'' = None \<and>
   fst (locate_on_screen cv_os ready_backend ''missing.png'' (9/10) (Some (Region 10 20 300 400)) IMAGE) =
     Inl (FileNotFoundError ''missing.png'') \<and>
   imread demo_cv2 ''button.png'' = Some (Image 12 30 []) \<and>
   fst (locate_on_screen cv_os ready_backend ''button.png'' (9/10) (Some (Region 10 20 300 400)) IMAGE) =
     Inr (Some (Region 11 20 30 12)) \<and>
   fst (locate_on_screen cv_os ready_backend ''button.png'' (99/100) None IMAGE) = Inr None"
proof -
  have e: "cv2_import cv_os = Some demo_cv2"
    "window_list_image cv_os (Some (Region 10 20 300 400)) = Some (Image 100 200 [])"
    "window_list_image cv_os None = Some (Image 100 200 [])"
    by (simp_all add: cv_os_def)
  have m: "imread demo_cv2 ''missing.png'' = None" "imread demo_cv2 ''button.png'' = Some (Image 12 30 [])"
    "minMaxLoc demo_cv2 (matchTemplate demo_cv2 (cvtColor demo_cv2 (Image 100 200 [])) (Image 12 30 [])) =
       (1/2, 19/20, (0, 0), (1, 0))"
    by (simp_all add: demo_cv2_def)
  from locate_on_screen_result [OF e(1) ready_backend_ready e(2), of "''missing.png''" "9/10" IMAGE]
       locate_on_screen_result [OF e(1) ready_backend_ready e(2), of "''button.png''" "9/10" IMAGE]
       locate_on_screen_result [OF e(1) ready_backend_ready e(3), of "''button.png''" "99/100" IMAGE]
       e m ready_backend_ready
  show ?thesis by simp
qed

section \<open>Calls on an orchestrator that is not initialized\<close>

lemma ensure_initialized_Inl:
  "\<not> ac_initialized core \<or> ac_backend core = None \<Longrightarrow> ensure_initialized core = Inl state_error"
  by (auto simp: ensure_initialized_def state_error_def split: option.splits)

lemma delegate_uninitialized:
  "\<not> ac_initialized core \<or> ac_backend core = None \<Longrightarrow> delegate core m w = (Inl state_error, core, w)"
  by (simp add: delegate_def ensure_initialized_Inl)

text \<open>
  C3. On an orchestrator whose flag is unset or that has no backend, each of the thirteen
  delegating methods raises the state error and leaves the orchestrator, its backend and
  the world as they were, whatever the class of the backend: the backend is not called.
  \<open>init\<close> on an initialized orchestrator returns at once: the orchestrator, with the backend
  it holds, and the world are unchanged.
\<close>

theorem uninitialized_calls_raise:
  "(\<not> ac_initialized core \<or> ac_backend core = None \<longrightarrow>
      core_get_screen_size core w = (Inl state_error, core, w) \<and>
      core_take_screenshot core region w = (Inl state_error, core, w) \<and>
      core_get_mouse_position core w = (Inl state_error, core, w) \<and>
      core_move_mouse core x y duration w = (Inl state_error, core, w) \<and>
      core_click core cx cy button clicks interval w = (Inl state_error, core, w) \<and>
      core_scroll core amount sx sy w = (Inl state_error, core, w) \<and>
      core_press_key core key w = (Inl state_error, core, w) \<and>
      core_key_down core key w = (Inl state_error, core, w) \<and>
      core_key_up core key w = (Inl state_error, core, w) \<and>
      core_type_text core text interval w = (Inl state_error, core, w) \<and>
      core_hotkey core keys w = (Inl state_error, core, w) \<and>
      core_locate_on_screen core image_path confidence region mode w = (Inl state_error, core, w) \<and>
      core_locate_all_on_screen core image_path confidence region mode w = (Inl state_error, core, w)) \<and>
   (ac_initialized core' \<longrightarrow> core_init core' w' = (Inr (), core', w'))"
  by (simp add: delegate_uninitialized core_get_screen_size_def core_take_screenshot_def
      core_get_mouse_position_def core_move_mouse_def core_click_def core_scroll_def
      core_press_key_def core_key_down_def core_key_up_def core_type_text_def core_hotkey_def
      core_locate_on_screen_def core_locate_all_on_screen_def core_init_def)

theorem uninitialized_calls_raise_witness:
  "\<not> ac_initialized (AutomationCore :: (macos_backend, world) automation_core) \<and>
   core_get_screen_size (AutomationCore :: (macos_backend, world) automation_core) mac_world =
     (Inl state_error, AutomationCore, mac_world) \<and>
   core_click (AutomationCore :: (macos_backend, world) automation_core) (Some 1) (Some 2) LEFT 1 0 mac_world =
     (Inl state_error, AutomationCore, mac_world) \<and>
   core_hotkey (AutomationCore :: (macos_backend, world) automation_core) [''cmd'', ''c''] mac_world =
     (Inl state_error, AutomationCore, mac_world) \<and>
   core_press_key (raising_core\<lparr>ac_initialized := False\<rparr>) ''a'' () =
     (Inl state_error, raising_core\<lparr>ac_initialized := False\<rparr>, ()) \<and>
   ac_initialized ready_core \<and>
   core_init ready_core mac_world = (Inr (), ready_core, mac_world)"
proof -
  have a: "\<not> ac_initialized (AutomationCore :: (macos_backend, world) automation_core)"
    by (simp add: AutomationCore_def)
  have b: "\<not> ac_initialized (raising_core\<lparr>ac_initialized := False\<rparr>)" by simp
  have c: "ac_initialized ready_core" by (simp add: ready_core_def)
  from uninitialized_calls_raise [of "AutomationCore :: (macos_backend, world) automation_core" mac_world
         _ _ _ _ "Some 1" "Some 2" LEFT 1 0 _ _ _ _ _ "[''cmd'', ''c'']" _ _ _ ready_core mac_world]
       uninitialized_calls_raise [of "raising_core\<lparr>ac_initialized := False\<rparr>" "()"
         _ _ _ _ _ _ _ _ _ _ _ _ "''a''" _ _ _ _ _ ready_core mac_world]
       a b c
  show ?thesis by simp
qed

section \<open>The flag of the orchestrator and the flag of its backend\<close>

lemma MacOSBackend_class_initialize:
  "bb_initialize MacOSBackend_class b w = (case initialize (w_os w) b of (r, b') \<Rightarrow> (r, b', w))"
  by (simp add: MacOSBackend_class_def)

lemma lift_self: "lift f b w = (r, b', w') \<Longrightarrow> b' = b"
  by (auto simp: lift_def split: prod.splits)

lemma delegate_inv:
  assumes "core_inv core" and keeps: "\<And>b w r b' w'. m MacOSBackend_class b w = (r, b', w') \<Longrightarrow> b' = b"
  shows "core_inv (fst (snd (delegate core m w)))"
proof (cases "ensure_initialized core")
  case (Inl e)
  with assms(1) show ?thesis by (simp add: delegate_def)
next
  case (Inr obj)
  then have o: "ac_backend core = Some obj" "ac_initialized core"
    by (auto simp: ensure_initialized_def split: option.splits if_splits)
  with assms(1) have c: "obj_class obj = MacOSBackend_class" "mb_initialized (obj_self obj)"
    by (simp_all add: core_inv_def)
  obtain r b' w' where m: "m MacOSBackend_class (obj_self obj) w = (r, b', w')"
    by (cases "m MacOSBackend_class (obj_self obj) w") auto
  from keeps [OF m] have "b' = obj_self obj" .
  with m c o show ?thesis
    by (simp add: delegate_def Inr invoke_def run_def core_inv_def)
qed

lemma core_init_inv: "core_inv core \<Longrightarrow> core_inv (fst (snd (core_init core w)))"
  by (auto simp: core_init_def core_inv_def invoke_def run_def MacOSBackend_class_def initialize_def
      MacOSBackend_def Let_def split: option.splits)

lemma core_cleanup_inv: "core_inv core \<Longrightarrow> core_inv (fst (snd (core_cleanup core w)))"
  by (auto simp: core_cleanup_def core_inv_def invoke_def run_def MacOSBackend_class_def cleanup_def
      split: option.splits)

lemma perform_inv: "core_inv core \<Longrightarrow> core_inv (fst (perform c core w))"
proof (cases c)
  case Init
  assume "core_inv core"
  from core_init_inv [OF this, of w] Init show ?thesis by simp
next
  case Cleanup
  assume "core_inv core"
  from core_cleanup_inv [OF this, of w] Cleanup show ?thesis by simp
qed (auto simp: core_get_screen_size_def core_take_screenshot_def
      core_get_mouse_position_def core_move_mouse_def core_click_def core_scroll_def
      core_press_key_def core_key_down_def core_key_up_def core_type_text_def core_hotkey_def
      core_locate_on_screen_def core_locate_all_on_screen_def MacOSBackend_class_def
      intro!: delegate_inv dest: lift_self)

lemma reachable_inv: "reachable core \<Longrightarrow> core_inv core"
proof (induction rule: reachable.induct)
  case reachable_new
  show ?case by (simp add: core_inv_def AutomationCore_def)
next
  case (reachable_call core c w core' w')
  from perform_inv [OF reachable_call.IH, of c w] reachable_call.hyps(2) show ?case by simp
qed

text \<open>
  C1. After any sequence of calls on a new orchestrator, returned or raised, in any worlds,
  the orchestrator's flag is set if and only if it holds a backend whose own flag is set.
\<close>

theorem initialized_iff_backend_initialized:
  assumes "reachable core"
  shows "ac_initialized core \<longleftrightarrow> (\<exists>obj. ac_backend core = Some obj \<and> mb_initialized (obj_self obj))"
  using reachable_inv [OF assms] by (auto simp: core_inv_def split: option.splits)

theorem initialized_iff_backend_initialized_witness:
  "reachable (fst (perform Init AutomationCore mac_world)) \<and>
   ac_initialized (fst (perform Init AutomationCore mac_world)) \<and>
   (\<exists>obj. ac_backend (fst (perform Init AutomationCore mac_world)) = Some obj \<and> mb_initialized (obj_self obj)) \<and>
   reachable (fst (perform Init AutomationCore (mac_world\<lparr>w_os := mac_os\<lparr>quartz_import := None\<rparr>\<rparr>))) \<and>
   \<not> ac_initialized (fst (perform Init AutomationCore (mac_world\<lparr>w_os := mac_os\<lparr>quartz_import := None\<rparr>\<rparr>))) \<and>
   ac_backend (fst (perform Init AutomationCore (mac_world\<lparr>w_os := mac_os\<lparr>quartz_import := None\<rparr>\<rparr>))) =
     Some \<lparr>obj_class = MacOSBackend_class, obj_self = \<lparr>mb_cg = None, mb_initialized = False\<rparr>\<rparr>"
proof -
  have r1: "reachable (fst (perform Init AutomationCore mac_world))"
    by (rule reachable_call [OF reachable_new, of Init mac_world _ "snd (perform Init AutomationCore mac_world)"]) simp
  have r2: "reachable (fst (perform Init AutomationCore (mac_world\<lparr>w_os := mac_os\<lparr>quartz_import := None\<rparr>\<rparr>)))"
    by (rule reachable_call [OF reachable_new, of Init "mac_world\<lparr>w_os := mac_os\<lparr>quartz_import := None\<rparr>\<rparr>" _
          "snd (perform Init AutomationCore (mac_world\<lparr>w_os := mac_os\<lparr>quartz_import := None\<rparr>\<rparr>))"]) simp
  have i1: "ac_initialized (fst (perform Init AutomationCore mac_world))"
    by (simp add: core_init_def AutomationCore_def mac_world_def mac_os_def invoke_def run_def
        MacOSBackend_class_def initialize_def MacOSBackend_def)
  have i2: "ac_backend (fst (perform Init AutomationCore (mac_world\<lparr>w_os := mac_os\<lparr>quartz_import := None\<rparr>\<rparr>))) =
     Some \<lparr>obj_class = MacOSBackend_class, obj_self = \<lparr>mb_cg = None, mb_initialized = False\<rparr>\<rparr>"
    by (simp add: core_init_def AutomationCore_def mac_world_def mac_os_def invoke_def run_def
        initialize_def MacOSBackend_def MacOSBackend_class_initialize)
  from initialized_iff_backend_initialized [OF r1] initialized_iff_backend_initialized [OF r2] r1 r2 i1 i2
  show ?thesis by simp
qed

section \<open>Cleanup\<close>

text \<open>
  C2, as stated, fails: the orchestrator has no handler around the backend's cleanup. With
  a backend whose cleanup raises, \<open>cleanup\<close> raises the same exception and the orchestrator
  still holds the backend and is still initialized.
\<close>

theorem cleanup_keeps_state_when_backend_raises:
  "fst (core_cleanup raising_core ()) = Inl (RuntimeError ''cleanup failed'') \<and>
   ac_backend (fst (snd (core_cleanup raising_core ()))) \<noteq> None \<and>
   ac_initialized (fst (snd (core_cleanup raising_core ())))"
  by (simp add: core_cleanup_def raising_core_def invoke_def run_def RaisingBackend_def)

text \<open>
  C2, amended. Without a backend \<open>cleanup\<close> returns and the orchestrator is uninitialized
  afterwards, unchanged if it was so before. With a backend it calls the backend's cleanup:
  when that returns, the backend is released and the flag cleared; when that raises, the
  exception reaches the caller and the orchestrator keeps its backend and its flag.
\<close>

theorem cleanup_outcomes:
  "(ac_backend core = None \<longrightarrow>
      core_cleanup core w = (Inr (), core\<lparr>ac_initialized := False\<rparr>, w) \<and>
      (\<not> ac_initialized core \<longrightarrow> core_cleanup core w = (Inr (), core, w))) \<and>
   (\<forall>obj u b' w'. ac_backend core = Some obj \<and>
        bb_cleanup (obj_class obj) (obj_self obj) w = (Inr u, b', w') \<longrightarrow>
      core_cleanup core w = (Inr (), core\<lparr>ac_backend := None, ac_initialized := False\<rparr>, w')) \<and>
   (\<forall>obj e b' w'. ac_backend core = Some obj \<and>
        bb_cleanup (obj_class obj) (obj_self obj) w = (Inl e, b', w') \<longrightarrow>
      core_cleanup core w = (Inl e, core\<lparr>ac_backend := Some (obj\<lparr>obj_self := b'\<rparr>)\<rparr>, w'))"
  by (auto simp: core_cleanup_def invoke_def run_def)

theorem cleanup_outcomes_witness:
  "ac_backend (AutomationCore :: (macos_backend, world) automation_core) = None \<and>
   \<not> ac_initialized (AutomationCore :: (macos_backend, world) automation_core) \<and>
   core_cleanup (AutomationCore :: (macos_backend, world) automation_core) mac_world =
     (Inr (), AutomationCore, mac_world) \<and>
   ac_backend ready_core = Some \<lparr>obj_class = MacOSBackend_class, obj_self = ready_backend\<rparr> \<and>
   bb_cleanup MacOSBackend_class ready_backend mac_world = (Inr (), MacOSBackend, mac_world) \<and>
   core_cleanup ready_core mac_world = (Inr (), AutomationCore, mac_world) \<and>
   ac_backend raising_core = Some \<lparr>obj_class = RaisingBackend, obj_self = ()\<rparr> \<and>
   bb_cleanup RaisingBackend () () = (Inl (RuntimeError ''cleanup failed''), (), ()) \<and>
   core_cleanup raising_core () = (Inl (RuntimeError ''cleanup failed''), raising_core, ())"
proof -
  have n: "ac_backend (AutomationCore :: (macos_backend, world) automation_core) = None"
    "\<not> ac_initialized (AutomationCore :: (macos_backend, world) automation_core)"
    by (simp_all add: AutomationCore_def)
  have m: "ac_backend ready_core = Some \<lparr>obj_class = MacOSBackend_class, obj_self = ready_backend\<rparr>"
    by (simp add: ready_core_def)
  have mc: "bb_cleanup MacOSBackend_class ready_backend mac_world = (Inr (), MacOSBackend, mac_world)"
    by (simp add: MacOSBackend_class_def cleanup_def ready_backend_def MacOSBackend_def)
  have r: "ac_backend raising_core = Some \<lparr>obj_class = RaisingBackend, obj_self = ()\<rparr>"
    by (simp add: raising_core_def)
  have rc: "bb_cleanup RaisingBackend () () = (Inl (RuntimeError ''cleanup failed''), (), ())"
    by (simp add: RaisingBackend_def)
  have e1: "ready_core\<lparr>ac_backend := None, ac_initialized := False\<rparr> = AutomationCore"
    by (simp add: ready_core_def AutomationCore_def)
  have e2: "raising_core\<lparr>ac_backend := Some \<lparr>obj_class = RaisingBackend, obj_self = ()\<rparr>\<rparr> = raising_core"
    by (simp add: raising_core_def)
  from cleanup_outcomes [of "AutomationCore :: (macos_backend, world) automation_core" mac_world]
       cleanup_outcomes [of ready_core mac_world] cleanup_outcomes [of raising_core "()"]
       n m mc r rc e1 e2
  show ?thesis by simp
qed

end
